theory Spec2Isabelle
  imports Complex_Main
begin

section \<open>MT4 Trade Logger: the ingestion and reconciliation engine of server/main.py\<close>

text \<open>
  The server receives trades and drawdown snapshots and writes them to Notion through
  httpx POST requests. The embedding below follows \<^verbatim>\<open>src/server/main.py\<close>
  function by function. Conventions:
  \<^item> a Python \<^verbatim>\<open>str\<close> is a \<^typ>\<open>string\<close>; a \<^typ>\<open>char\<close> stands for the code point of
    the same number (so the model covers the code points below 256);
  \<^item> a Python \<^verbatim>\<open>int\<close> is an \<^typ>\<open>int\<close>, a \<^verbatim>\<open>float\<close> a \<^typ>\<open>real\<close> (floats are only
    carried from the request into the payload, never computed with);
  \<^item> the module-level caches and everything that reaches the network are an explicit
    state; the remote store and the wall clock are parameters;
  \<^item> an exception is a value of type \<open>error\<close>, returned as \<open>Inl\<close>;
  \<^item> logging has no effect on any result and is left out.
\<close>

subsection \<open>Characters and numbers in text\<close>

definition digit_chars :: string where
  "digit_chars = ''0123456789''"

definition is_ascii_digit :: "char \<Rightarrow> bool" where
  "is_ascii_digit c = (c \<in> set digit_chars)"

text \<open>The value of a decimal digit (only used on characters of \<open>digit_chars\<close>).\<close>

definition digit_val :: "char \<Rightarrow> nat" where
  "digit_val c = of_char c - 48"

definition digit_char :: "nat \<Rightarrow> char" where
  "digit_char n = digit_chars ! (n mod 10)"

text \<open>\<^verbatim>\<open>int(s)\<close> on a string of ASCII decimal digits.\<close>

definition nat_of_digits :: "string \<Rightarrow> nat" where
  "nat_of_digits s = foldl (\<lambda>acc c. 10 * acc + digit_val c) 0 s"

text \<open>\<^verbatim>\<open>str(n)\<close> for a natural number, and \<^verbatim>\<open>f"{i}"\<close> for an integer.\<close>

function str_nat :: "nat \<Rightarrow> string" where
  "str_nat n = (if n < 10 then [digit_char n] else str_nat (n div 10) @ [digit_char n])"
  by pat_completeness auto
termination
  by (relation "measure (\<lambda>n. n)") auto

declare str_nat.simps [simp del]

definition str_int :: "int \<Rightarrow> string" where
  "str_int i = (if i < 0 then CHR ''-'' # str_nat (nat (- i)) else str_nat (nat i))"

text \<open>\<^verbatim>\<open>"%0wd" % n\<close>: at least \<open>w\<close> characters, padded with zeros on the left.\<close>

definition zpad :: "nat \<Rightarrow> nat \<Rightarrow> string" where
  "zpad w n = replicate (w - length (str_nat n)) CHR ''0'' @ str_nat n"

text \<open>
  \<^verbatim>\<open>str.isdigit()\<close>: true when the string is not empty and every character has the
  Unicode property Digit. Below code point 256 these are the ten ASCII digits and the
  superscripts two, three and one (U+00B2, U+00B3, U+00B9).
\<close>

definition is_unicode_digit :: "char \<Rightarrow> bool" where
  "is_unicode_digit c = (is_ascii_digit c \<or> c \<in> set [CHR 0xB2, CHR 0xB3, CHR 0xB9])"

definition isdigit :: "string \<Rightarrow> bool" where
  "isdigit s = (s \<noteq> [] \<and> list_all is_unicode_digit s)"

text \<open>
  Whitespace as the regular expression class \<^verbatim>\<open>\s\<close> sees it on \<^verbatim>\<open>str\<close> patterns
  (below code point 256).
\<close>

definition is_space :: "char \<Rightarrow> bool" where
  "is_space c = (c \<in> set [CHR 0x09, CHR 0x0A, CHR 0x0B, CHR 0x0C, CHR 0x0D,
                            CHR 0x1C, CHR 0x1D, CHR 0x1E, CHR 0x1F, CHR 0x20,
                            CHR 0x85, CHR 0xA0])"

text \<open>Two characters that are equal up to the case of an ASCII letter.\<close>

definition lower_char :: "char \<Rightarrow> char" where
  "lower_char c =
     (let n = (of_char c :: nat) in if 65 \<le> n \<and> n \<le> 90 then char_of (n + 32) else c)"

definition same_ci :: "char \<Rightarrow> char \<Rightarrow> bool" where
  "same_ci a b = (lower_char a = lower_char b)"

subsection \<open>Errors\<close>

text \<open>
  \<open>HTTPException\<close> is FastAPI's exception with its status code and detail;
  \<open>ValueError\<close> is Python's, with its message.
\<close>

datatype error = HTTPException nat string | ValueError string

subsection \<open>datetime: the parts of the standard library the program calls\<close>

record datetime =
  year :: nat
  month :: nat
  day :: nat
  hour :: nat
  minute :: nat
  second :: nat
  microsecond :: nat

definition is_leap :: "nat \<Rightarrow> bool" where
  "is_leap y = (y mod 4 = 0 \<and> (y mod 100 \<noteq> 0 \<or> y mod 400 = 0))"

definition days_in_month :: "nat \<Rightarrow> nat \<Rightarrow> nat" where
  "days_in_month y m =
     (if m = 2 then (if is_leap y then 29 else 28)
      else if m \<in> {4, 6, 9, 11} then 30 else 31)"

text \<open>The ranges the \<^verbatim>\<open>datetime\<close> constructor enforces (it raises ValueError otherwise).\<close>

definition valid_datetime :: "datetime \<Rightarrow> bool" where
  "valid_datetime d =
     (1 \<le> year d \<and> year d \<le> 9999 \<and> 1 \<le> month d \<and> month d \<le> 12 \<and>
      1 \<le> day d \<and> day d \<le> days_in_month (year d) (month d) \<and>
      hour d < 24 \<and> minute d < 60 \<and> second d < 60 \<and> microsecond d < 1000000)"

text \<open>
  \<^verbatim>\<open>datetime.isoformat()\<close> of a naive datetime:
  \<^verbatim>\<open>"%04d-%02d-%02d" + "T" + "%02d:%02d:%02d"\<close>, then \<^verbatim>\<open>".%06d"\<close> when the
  microsecond is not zero.
\<close>

definition isoformat :: "datetime \<Rightarrow> string" where
  "isoformat d =
     zpad 4 (year d) @ ''-'' @ zpad 2 (month d) @ ''-'' @ zpad 2 (day d) @ ''T'' @
     zpad 2 (hour d) @ '':'' @ zpad 2 (minute d) @ '':'' @ zpad 2 (second d) @
     (if microsecond d \<noteq> 0 then ''.'' @ zpad 6 (microsecond d) else [])"

text \<open>
  \<^verbatim>\<open>datetime.strptime(data, format)\<close>. The library turns the format into a regular
  expression: a directive becomes a group of alternatives, tried in the order written;
  a run of whitespace becomes \<^verbatim>\<open>\s+\<close>; any other character stands for itself; the
  expression is compiled with IGNORECASE and matched at the start of the data. The
  first match in backtracking order is taken; data left after it, a data string that
  does not match, and field values the \<^verbatim>\<open>datetime\<close> constructor refuses all raise
  ValueError, which is \<open>None\<close> here.
\<close>

datatype fmt_item = Dir char | Lit char | Ws

function pattern :: "string \<Rightarrow> fmt_item list" where
  "pattern [] = []"
| "pattern (c # cs) =
     (if c = CHR ''%'' then (case cs of [] \<Rightarrow> [Lit c] | d # rest \<Rightarrow> Dir d # pattern rest)
      else if is_space c then Ws # pattern (dropWhile is_space cs)
      else Lit c # pattern cs)"
  by pat_completeness auto
termination
  by (relation "measure length") (auto simp: length_dropWhile_le less_Suc_eq_le)

text \<open>
  The alternatives of a directive: each alternative is a sequence of character classes,
  a class being the string of the characters it accepts.
  \<^verbatim>\<open>
  'd': r"(?P<d>3[0-1]|[1-2]\d|0[1-9]|[1-9]| [1-9])",
  'H': r"(?P<H>2[0-3]|[0-1]\d|\d)",
  'm': r"(?P<m>1[0-2]|0[1-9]|[1-9])",
  'M': r"(?P<M>[0-5]\d|\d)",
  'S': r"(?P<S>6[0-1]|[0-5]\d|\d)",
  'Y': r"(?P<Y>\d\d\d\d)",
  \<close>
  A directive outside this table (the program uses none) has no alternative.
\<close>

definition directive_alts :: "char \<Rightarrow> string list list" where
  "directive_alts d =
     (if d = CHR ''d'' then [[''3'', ''01''], [''12'', digit_chars], [''0'', ''123456789''],
                            [''123456789''], ['' '', ''123456789'']]
      else if d = CHR ''H'' then [[''2'', ''0123''], [''01'', digit_chars], [digit_chars]]
      else if d = CHR ''m'' then [[''1'', ''012''], [''0'', ''123456789''], [''123456789'']]
      else if d = CHR ''M'' then [[''012345'', digit_chars], [digit_chars]]
      else if d = CHR ''S'' then [[''6'', ''01''], [''012345'', digit_chars], [digit_chars]]
      else if d = CHR ''Y'' then [[digit_chars, digit_chars, digit_chars, digit_chars]]
      else [])"

definition match_alt :: "string list \<Rightarrow> string \<Rightarrow> (string \<times> string) option" where
  "match_alt alt s =
     (if length alt \<le> length s \<and> list_all2 (\<lambda>cls c. c \<in> set cls) alt (take (length alt) s)
      then Some (take (length alt) s, drop (length alt) s) else None)"

text \<open>
  All the ways the expression matches a prefix of the data, in backtracking order:
  the groups found and the data that remains. \<^verbatim>\<open>\s+\<close> is greedy.
\<close>

fun re_match :: "fmt_item list \<Rightarrow> string \<Rightarrow> ((char \<times> string) list \<times> string) list" where
  "re_match [] s = [([], s)]"
| "re_match (Lit c # fs) s =
     (case s of [] \<Rightarrow> [] | x # xs \<Rightarrow> if same_ci c x then re_match fs xs else [])"
| "re_match (Ws # fs) s =
     concat (map (\<lambda>k. re_match fs (drop k s))
                 (rev [1 ..< Suc (length (takeWhile is_space s))]))"
| "re_match (Dir d # fs) s =
     concat (map (\<lambda>alt. case match_alt alt s of
                           None \<Rightarrow> []
                         | Some (g, rest) \<Rightarrow> map (\<lambda>(gs, r). ((d, g) # gs, r)) (re_match fs rest))
                 (directive_alts d))"

text \<open>
  A group's value; the library's defaults when the format has no such directive are
  1900-01-01 00:00:00. The day alternative with a leading space is read by \<^verbatim>\<open>int\<close>,
  which strips whitespace.
\<close>

definition group_val :: "(char \<times> string) list \<Rightarrow> char \<Rightarrow> nat \<Rightarrow> nat" where
  "group_val gs d dflt =
     (case map_of gs d of None \<Rightarrow> dflt | Some g \<Rightarrow> nat_of_digits (filter is_ascii_digit g))"

definition strptime :: "string \<Rightarrow> string \<Rightarrow> datetime option" where
  "strptime data_string format =
     (case re_match (pattern format) data_string of
        [] \<Rightarrow> None
      | (gs, rest) # _ \<Rightarrow>
          if rest \<noteq> [] then None
          else
            (let d = \<lparr> year = group_val gs CHR ''Y'' 1900, month = group_val gs CHR ''m'' 1,
                       day = group_val gs CHR ''d'' 1, hour = group_val gs CHR ''H'' 0,
                       minute = group_val gs CHR ''M'' 0, second = group_val gs CHR ''S'' 0,
                       microsecond = 0 \<rparr>
             in if valid_datetime d then Some d else None))"

subsection \<open>JSON values, requests and replies\<close>

text \<open>
  The payload of a request is the Python dict literal of the source, as a JSON value;
  a \<open>JObj\<close> keeps the insertion order of the dict.
\<close>

datatype json =
    JNull
  | JBool bool
  | JInt int
  | JFloat real
  | JStr string
  | JArr "json list"
  | JObj "(string \<times> json) list"

text \<open>\<^verbatim>\<open>payload["properties"][k] = v\<close> for a key the dict does not have yet.\<close>

fun add_property :: "string \<Rightarrow> json \<Rightarrow> json \<Rightarrow> json" where
  "add_property k v (JObj [parent, (p, JObj props)]) = JObj [parent, (p, JObj (props @ [(k, v)]))]"
| "add_property k v j = j"

text \<open>
  \<^verbatim>\<open>client.post(url, headers=..., json=..., timeout=...)\<close>: what goes over the wire.
\<close>

record request =
  url :: string
  headers :: "(string \<times> string) list"
  payload :: json
  timeout :: real

text \<open>
  What the program reads of a decoded response body. A body that decodes is a JSON
  object (section 6 of the specification); every key the program reads with
  \<^verbatim>\<open>.get(key, default)\<close> is optional here, and \<^verbatim>\<open>results[0]["id"]\<close>, which the
  program reads without a default, is a field every page has.
  A page of a query result, as \<^verbatim>\<open>obtener_tickets_cuenta\<close> reads it:
  \<^verbatim>\<open>page.get("properties", {}).get("Ticket", {}).get("title", [])\<close> and then
  \<^verbatim>\<open>title_list[0].get("text", {}).get("content", "")\<close>.
\<close>

record text_obj =
  t_content :: "string option"

record rich_text =
  rt_text :: "text_obj option"

record property =
  pr_title :: "rich_text list option"

record page =
  p_id :: string
  p_properties :: "(string \<times> property) list option"

text \<open>
  A dict the program reads keys of: a decoded response body, or a dict literal one of
  its functions returns. The key \<^verbatim>\<open>detail\<close> of the drawdown recorder's error dicts
  is read nowhere and is not kept.
\<close>

record jdict =
  d_results :: "page list option"
  d_has_more :: "bool option"
  d_next_cursor :: "string option"
  d_id :: "string option"
  d_status :: "string option"
  d_message :: "string option"

definition empty_dict :: jdict where
  "empty_dict = \<lparr> d_results = None, d_has_more = None, d_next_cursor = None, d_id = None,
                   d_status = None, d_message = None \<rparr>"

text \<open>\<^verbatim>\<open>d.get(key, default)\<close>, the key's entry given as an option.\<close>

definition py_get :: "'a option \<Rightarrow> 'a \<Rightarrow> 'a" where
  "py_get v dflt = (case v of None \<Rightarrow> dflt | Some x \<Rightarrow> x)"

text \<open>
  The outcome of a POST: \<^verbatim>\<open>httpx.RequestError\<close> with its message, or a response with
  its status code and its body. The body is \<open>Some d\<close> when it is the text of a JSON
  object, \<open>d\<close> being that object as decoded, and \<open>None\<close> when it is not JSON (the
  HTML page of a gateway, an empty body).
\<close>

datatype reply = RequestError string | Response nat "jdict option"

text \<open>
  \<^verbatim>\<open>response.json()\<close>: on a body that is not JSON it raises
  \<^verbatim>\<open>json.JSONDecodeError\<close>, a subclass of ValueError (its message, which depends on
  the body, is not modelled).
\<close>

definition response_json :: "jdict option \<Rightarrow> error + jdict" where
  "response_json body =
     (case body of
        None \<Rightarrow> Inl (ValueError ''JSONDecodeError'')
      | Some d \<Rightarrow> Inr d)"

subsection \<open>Configuration, environment and state\<close>

text \<open>The environment variables read at import time; an unset variable is the empty string.\<close>

record config =
  NOTION_API_KEY :: string
  NOTION_DATABASE_ID :: string
  NOTION_CUENTAS_DB_ID :: string
  NOTION_ESTRATEGIAS_DB_ID :: string
  NOTION_DRAWDOWN_DB_ID :: string

definition NOTION_API_URL :: string where
  "NOTION_API_URL = ''https://api.notion.com/v1/pages''"

definition NOTION_QUERY_URL :: string where
  "NOTION_QUERY_URL = ''https://api.notion.com/v1/databases''"

definition NOTION_VERSION :: string where
  "NOTION_VERSION = ''2022-06-28''"

text \<open>
  The world outside the process: the remote store answers a request as a function of
  all the requests sent so far (the last one being the request it answers), which covers
  every deterministic store and every sequence of failures; the clock gives the value
  of the \<open>n\<close>-th call of \<^verbatim>\<open>datetime.now()\<close>.
\<close>

record env =
  net :: "request list \<Rightarrow> reply"
  clock :: "nat \<Rightarrow> datetime"

text \<open>
  The state of the process: the two module-level caches, the requests sent so far in
  order, and the number of clock readings so far.
\<close>

record state =
  cache_cuentas :: "string \<rightharpoonup> string"
  cache_estrategias :: "int \<rightharpoonup> string"
  sent :: "request list"
  ticks :: nat

definition post :: "env \<Rightarrow> request \<Rightarrow> state \<Rightarrow> reply \<times> state" where
  "post e rq s = (net e (sent s @ [rq]), s\<lparr>sent := sent s @ [rq]\<rparr>)"

definition datetime_now :: "env \<Rightarrow> state \<Rightarrow> datetime \<times> state" where
  "datetime_now e s = (clock e (ticks s), s\<lparr>ticks := Suc (ticks s)\<rparr>)"

subsection \<open>The request models\<close>

record TradeData =
  identificador_cuenta :: string
  ticket :: int
  magic_number :: int
  simbolo :: string
  direccion :: string
  lotes :: real
  pnl :: real
  resultado :: string
  balance :: real
  fecha_apertura :: "string option"
  fecha_cierre :: string
  comentario :: "string option"

record DrawdownData =
  dd_identificador_cuenta :: string
  dd_magic_number :: int
  dd_balance :: real
  dd_equity :: real
  dd_peak_balance :: real
  dd_drawdown_cuenta :: real
  dd_drawdown_cuenta_pct :: real
  dd_drawdown_estrategia :: real
  dd_max_drawdown_estrategia :: real
  dd_peak_estrategia :: real
  dd_timestamp :: string

subsection \<open>Auxiliary functions\<close>

definition formatos_posibles :: "string list" where
  "formatos_posibles =
     [''%Y.%m.%dT%H:%M:%S'', ''%Y-%m-%dT%H:%M:%S'', ''%Y.%m.%d %H:%M:%S'', ''%Y-%m-%d %H:%M:%S'']"

text \<open>
  The \<^verbatim>\<open>for formato in formatos_posibles\<close> loop of \<^verbatim>\<open>formatear_fecha_notion\<close>:
  the first format that parses returns; after the last one the current time is used.
\<close>

fun probar_formatos :: "env \<Rightarrow> string \<Rightarrow> string list \<Rightarrow> state \<Rightarrow> string \<times> state" where
  "probar_formatos e fecha_str [] s =
     (let (ahora, s') = datetime_now e s in (isoformat ahora, s'))"
| "probar_formatos e fecha_str (formato # fs) s =
     (case strptime fecha_str formato of
        Some fecha_parseada \<Rightarrow> (isoformat fecha_parseada, s)
      | None \<Rightarrow> probar_formatos e fecha_str fs s)"

definition formatear_fecha_notion :: "env \<Rightarrow> string \<Rightarrow> state \<Rightarrow> string \<times> state" where
  "formatear_fecha_notion e fecha_str s =
     (if fecha_str = [] then (let (ahora, s') = datetime_now e s in (isoformat ahora, s'))
      else probar_formatos e fecha_str formatos_posibles s)"

definition get_notion_headers :: "config \<Rightarrow> (string \<times> string) list" where
  "get_notion_headers cfg =
     [(''Authorization'', ''Bearer '' @ NOTION_API_KEY cfg),
      (''Content-Type'', ''application/json''),
      (''Notion-Version'', NOTION_VERSION)]"

definition verificar_ticket_existe ::
    "env \<Rightarrow> config \<Rightarrow> int \<Rightarrow> string \<Rightarrow> state \<Rightarrow> (error + bool) \<times> state" where
  "verificar_ticket_existe e cfg tkt cuenta s =
     (if NOTION_API_KEY cfg = [] \<or> NOTION_DATABASE_ID cfg = [] then (Inr False, s)
      else
        (let query_url = NOTION_QUERY_URL @ ''/'' @ NOTION_DATABASE_ID cfg @ ''/query'';
             pl = JObj [(''filter'', JObj [(''property'', JStr ''Ticket''),
                                          (''number'', JObj [(''equals'', JInt tkt)])]),
                        (''page_size'', JInt 1)];
             (r, s1) = post e \<lparr> url = query_url, headers = get_notion_headers cfg,
                                 payload = pl, timeout = 30 \<rparr> s
         in case r of
              Response status_code body \<Rightarrow>
                if status_code = 200 then
                  (case response_json body of
                     Inl err \<Rightarrow> (Inl err, s1)
                   | Inr data \<Rightarrow> (Inr (length (py_get (d_results data) []) > 0), s1))
                else (Inr False, s1)
            | RequestError msg \<Rightarrow> (Inr False, s1)))"

definition crear_cuenta ::
    "env \<Rightarrow> config \<Rightarrow> string \<Rightarrow> state \<Rightarrow> (error + string) \<times> state" where
  "crear_cuenta e cfg nombre_cuenta s =
     (let pl = JObj [(''parent'', JObj [(''database_id'', JStr (NOTION_CUENTAS_DB_ID cfg))]),
                     (''properties'',
                        JObj [(''Nombre'',
                                 JObj [(''title'',
                                          JArr [JObj [(''text'',
                                                         JObj [(''content'', JStr nombre_cuenta)])]])])])];
          (r, s1) = post e \<lparr> url = NOTION_API_URL, headers = get_notion_headers cfg,
                              payload = pl, timeout = 30 \<rparr> s
      in case r of
           Response status_code body \<Rightarrow>
             if status_code = 200 then
               (case response_json body of
                  Inl err \<Rightarrow> (Inl err, s1)
                | Inr data \<Rightarrow>
                    (let page_id = py_get (d_id data) []
                     in (Inr page_id,
                         s1\<lparr>cache_cuentas := (cache_cuentas s1)(nombre_cuenta \<mapsto> page_id)\<rparr>)))
             else (Inr [], s1)
         | RequestError msg \<Rightarrow> (Inr [], s1))"

definition buscar_o_crear_cuenta ::
    "env \<Rightarrow> config \<Rightarrow> string \<Rightarrow> state \<Rightarrow> (error + string) \<times> state" where
  "buscar_o_crear_cuenta e cfg nombre_cuenta s =
     (case cache_cuentas s nombre_cuenta of
        Some page_id \<Rightarrow> (Inr page_id, s)
      | None \<Rightarrow>
          if NOTION_CUENTAS_DB_ID cfg = [] then (Inr [], s)
          else
            (let query_url = NOTION_QUERY_URL @ ''/'' @ NOTION_CUENTAS_DB_ID cfg @ ''/query'';
                 pl = JObj [(''filter'', JObj [(''property'', JStr ''Nombre''),
                                              (''title'', JObj [(''equals'', JStr nombre_cuenta)])]),
                            (''page_size'', JInt 1)];
                 (r, s1) = post e \<lparr> url = query_url, headers = get_notion_headers cfg,
                                     payload = pl, timeout = 30 \<rparr> s
             in case r of
                  Response status_code body \<Rightarrow>
                    if status_code = 200 then
                      (case response_json body of
                         Inl err \<Rightarrow> (Inl err, s1)
                       | Inr data \<Rightarrow>
                           (case py_get (d_results data) [] of
                              pg # _ \<Rightarrow>
                                (Inr (p_id pg),
                                 s1\<lparr>cache_cuentas :=
                                      (cache_cuentas s1)(nombre_cuenta \<mapsto> p_id pg)\<rparr>)
                            | [] \<Rightarrow> crear_cuenta e cfg nombre_cuenta s1))
                    else (Inr [], s1)
                | RequestError msg \<Rightarrow> (Inr [], s1)))"

definition crear_estrategia ::
    "env \<Rightarrow> config \<Rightarrow> int \<Rightarrow> state \<Rightarrow> (error + string) \<times> state" where
  "crear_estrategia e cfg magic s =
     (let nombre = (if magic \<noteq> 0 then ''Estrategia '' @ str_int magic else ''Manual (0)'');
          pl = JObj [(''parent'', JObj [(''database_id'', JStr (NOTION_ESTRATEGIAS_DB_ID cfg))]),
                     (''properties'',
                        JObj [(''Nombre'',
                                 JObj [(''title'',
                                          JArr [JObj [(''text'',
                                                         JObj [(''content'', JStr nombre)])]])]),
                              (''Magic Number'', JObj [(''number'', JInt magic)])])];
          (r, s1) = post e \<lparr> url = NOTION_API_URL, headers = get_notion_headers cfg,
                              payload = pl, timeout = 30 \<rparr> s
      in case r of
           Response status_code body \<Rightarrow>
             if status_code = 200 then
               (case response_json body of
                  Inl err \<Rightarrow> (Inl err, s1)
                | Inr data \<Rightarrow>
                    (let page_id = py_get (d_id data) []
                     in (Inr page_id,
                         s1\<lparr>cache_estrategias := (cache_estrategias s1)(magic \<mapsto> page_id)\<rparr>)))
             else (Inr [], s1)
         | RequestError msg \<Rightarrow> (Inr [], s1))"

definition buscar_o_crear_estrategia ::
    "env \<Rightarrow> config \<Rightarrow> int \<Rightarrow> state \<Rightarrow> (error + string) \<times> state" where
  "buscar_o_crear_estrategia e cfg magic s =
     (case cache_estrategias s magic of
        Some page_id \<Rightarrow> (Inr page_id, s)
      | None \<Rightarrow>
          if NOTION_ESTRATEGIAS_DB_ID cfg = [] then (Inr [], s)
          else
            (let query_url = NOTION_QUERY_URL @ ''/'' @ NOTION_ESTRATEGIAS_DB_ID cfg @ ''/query'';
                 pl = JObj [(''filter'', JObj [(''property'', JStr ''Magic Number''),
                                              (''number'', JObj [(''equals'', JInt magic)])]),
                            (''page_size'', JInt 1)];
                 (r, s1) = post e \<lparr> url = query_url, headers = get_notion_headers cfg,
                                     payload = pl, timeout = 30 \<rparr> s
             in case r of
                  Response status_code body \<Rightarrow>
                    if status_code = 200 then
                      (case response_json body of
                         Inl err \<Rightarrow> (Inl err, s1)
                       | Inr data \<Rightarrow>
                           (case py_get (d_results data) [] of
                              pg # _ \<Rightarrow>
                                (Inr (p_id pg),
                                 s1\<lparr>cache_estrategias :=
                                      (cache_estrategias s1)(magic \<mapsto> p_id pg)\<rparr>)
                            | [] \<Rightarrow> crear_estrategia e cfg magic s1))
                    else (Inr [], s1)
                | RequestError msg \<Rightarrow> (Inr [], s1)))"

subsection \<open>The ticket enumerator\<close>

text \<open>
  \<^verbatim>\<open>int(ticket_str)\<close> where it is called, that is on a string for which
  \<^verbatim>\<open>isdigit()\<close> holds: a string of ASCII decimal digits is converted, and a string with
  a digit that is not a decimal (a superscript) raises ValueError.
\<close>

definition py_int :: "string \<Rightarrow> error + int" where
  "py_int s =
     (if list_all is_ascii_digit s then Inr (int (nat_of_digits s))
      else Inl (ValueError (''invalid literal for int() with base 10: '' @ s)))"

text \<open>
  The \<^verbatim>\<open>for page in data.get("results", [])\<close> loop. An exception leaves the loop and
  the function; the tickets appended so far are lost with it.
\<close>

fun extraer_tickets :: "page list \<Rightarrow> int list \<Rightarrow> error + int list" where
  "extraer_tickets [] tickets = Inr tickets"
| "extraer_tickets (pg # pgs) tickets =
     (let props = py_get (p_properties pg) [];
          ticket_prop = py_get (map_of props ''Ticket'') \<lparr> pr_title = None \<rparr>;
          title_list = py_get (pr_title ticket_prop) []
      in case title_list of
           [] \<Rightarrow> extraer_tickets pgs tickets
         | t0 # _ \<Rightarrow>
             (let ticket_str = py_get (t_content (py_get (rt_text t0) \<lparr> t_content = None \<rparr>)) []
              in if isdigit ticket_str then
                   (case py_int ticket_str of
                      Inl err \<Rightarrow> Inl err
                    | Inr n \<Rightarrow> extraer_tickets pgs (tickets @ [n]))
                 else extraer_tickets pgs tickets))"

text \<open>
  The \<^verbatim>\<open>while has_more\<close> loop, entered with \<open>has_more = True\<close>. Nothing bounds the
  number of pages: against a store that always answers \<open>has_more = true\<close> the loop
  does not end, which is the value \<open>None\<close>.
\<close>

partial_function (option) paginar ::
    "env \<Rightarrow> config \<Rightarrow> string \<Rightarrow> int list \<Rightarrow> string option \<Rightarrow> state
      \<Rightarrow> ((error + int list) \<times> state) option" where
  "paginar e cfg cuenta tickets start_cursor s =
     (let query_url = NOTION_QUERY_URL @ ''/'' @ NOTION_DATABASE_ID cfg @ ''/query'';
          pl = JObj ([(''filter'', JObj [(''property'', JStr ''Cuenta''),
                                        (''select'', JObj [(''equals'', JStr cuenta)])]),
                      (''page_size'', JInt 100)] @
                     (case start_cursor of
                        None \<Rightarrow> []
                      | Some c \<Rightarrow> if c \<noteq> [] then [(''start_cursor'', JStr c)] else []));
          rs = post e \<lparr> url = query_url, headers = get_notion_headers cfg,
                         payload = pl, timeout = 60 \<rparr> s
      in case fst rs of
           Response status_code body \<Rightarrow>
             if status_code = 200 then
               (case response_json body of
                  Inl err \<Rightarrow> Some (Inl err, snd rs)
                | Inr data \<Rightarrow>
                    (case extraer_tickets (py_get (d_results data) []) tickets of
                       Inl err \<Rightarrow> Some (Inl err, snd rs)
                     | Inr tickets' \<Rightarrow>
                         if py_get (d_has_more data) False
                         then paginar e cfg cuenta tickets' (d_next_cursor data) (snd rs)
                         else Some (Inr tickets', snd rs)))
             else Some (Inr tickets, snd rs)
         | RequestError msg \<Rightarrow> Some (Inr tickets, snd rs))"

declare paginar.simps [code]

definition obtener_tickets_cuenta ::
    "env \<Rightarrow> config \<Rightarrow> string \<Rightarrow> state \<Rightarrow> ((error + int list) \<times> state) option" where
  "obtener_tickets_cuenta e cfg cuenta s =
     (if NOTION_API_KEY cfg = [] \<or> NOTION_DATABASE_ID cfg = [] then Some (Inr [], s)
      else paginar e cfg cuenta [] None s)"

subsection \<open>The trade recorder\<close>

text \<open>
  The payload \<^verbatim>\<open>enviar_a_notion\<close> builds, from the two formatted dates and the two
  relation identifiers: the dict literal, then the three conditional additions.
\<close>

definition trade_payload ::
    "config \<Rightarrow> TradeData \<Rightarrow> string \<Rightarrow> string option \<Rightarrow> string \<Rightarrow> string \<Rightarrow> json" where
  "trade_payload cfg trade fecha_cierre_iso fecha_apertura_iso cuenta_page_id estrategia_page_id =
     (let pl0 = JObj [(''parent'', JObj [(''database_id'', JStr (NOTION_DATABASE_ID cfg))]),
                      (''properties'',
                         JObj [(''S'' @ [CHR 0xED] @ ''mbolo'',
                                  JObj [(''title'',
                                           JArr [JObj [(''text'',
                                                          JObj [(''content'', JStr (simbolo trade))])]])]),
                               (''Ticket'', JObj [(''number'', JInt (ticket trade))]),
                               (''Direcci'' @ [CHR 0xF3] @ ''n'',
                                  JObj [(''select'', JObj [(''name'', JStr (direccion trade))])]),
                               (''Lotes'', JObj [(''number'', JFloat (lotes trade))]),
                               (''PnL'', JObj [(''number'', JFloat (pnl trade))]),
                               (''Resultado'',
                                  JObj [(''select'', JObj [(''name'', JStr (resultado trade))])]),
                               (''Balance'', JObj [(''number'', JFloat (balance trade))]),
                               (''Fecha Cierre'',
                                  JObj [(''date'', JObj [(''start'', JStr fecha_cierre_iso)])]),
                               (''Comentario'',
                                  JObj [(''rich_text'',
                                           JArr [JObj [(''text'',
                                                          JObj [(''content'',
                                                                   JStr (py_get (comentario trade) []))])]])])])];
          pl1 = (if cuenta_page_id \<noteq> []
                 then add_property ''Cuenta''
                        (JObj [(''relation'', JArr [JObj [(''id'', JStr cuenta_page_id)]])]) pl0
                 else pl0);
          pl2 = (if estrategia_page_id \<noteq> []
                 then add_property ''Estrategia''
                        (JObj [(''relation'', JArr [JObj [(''id'', JStr estrategia_page_id)]])]) pl1
                 else pl1)
      in case fecha_apertura_iso of
           None \<Rightarrow> pl2
         | Some ap_iso \<Rightarrow>
             if ap_iso \<noteq> []
             then add_property ''Fecha Apertura''
                    (JObj [(''date'', JObj [(''start'', JStr ap_iso)])]) pl2
             else pl2)"

text \<open>
  The part of \<^verbatim>\<open>enviar_a_notion\<close> after the configuration and duplicate checks:
  dates, relations, payload and the create request. An exception of a relation
  resolver leaves the function where it is raised. In the branch of a status other
  than 200, \<^verbatim>\<open>error_detail = response.json()\<close> is evaluated before the
  HTTPException is built.
\<close>

definition crear_trade :: "env \<Rightarrow> config \<Rightarrow> TradeData \<Rightarrow> state \<Rightarrow> (error + jdict) \<times> state" where
  "crear_trade e cfg trade s1 =
     (let (fecha_cierre_iso, s2) = formatear_fecha_notion e (fecha_cierre trade) s1;
          (fecha_apertura_iso, s3) =
             (case fecha_apertura trade of
                None \<Rightarrow> (None, s2)
              | Some f \<Rightarrow>
                  if f = [] then (None, s2)
                  else (let (ap_iso, s') = formatear_fecha_notion e f s2 in (Some ap_iso, s')));
          (cuenta_res, s4) = buscar_o_crear_cuenta e cfg (identificador_cuenta trade) s3
      in case cuenta_res of
           Inl err \<Rightarrow> (Inl err, s4)
         | Inr cuenta_page_id \<Rightarrow>
             (let (estrategia_res, s5) = buscar_o_crear_estrategia e cfg (magic_number trade) s4
              in case estrategia_res of
                   Inl err \<Rightarrow> (Inl err, s5)
                 | Inr estrategia_page_id \<Rightarrow>
                     (let (r, s6) =
                            post e \<lparr> url = NOTION_API_URL, headers = get_notion_headers cfg,
                                     payload = trade_payload cfg trade fecha_cierre_iso
                                                 fecha_apertura_iso cuenta_page_id
                                                 estrategia_page_id,
                                     timeout = 30 \<rparr> s5
                      in case r of
                           Response status_code body \<Rightarrow>
                             if status_code = 200 then
                               (case response_json body of
                                  Inl err \<Rightarrow> (Inl err, s6)
                                | Inr data \<Rightarrow> (Inr data, s6))
                             else
                               (case response_json body of
                                  Inl err \<Rightarrow> (Inl err, s6)
                                | Inr error_detail \<Rightarrow>
                                    (Inl (HTTPException status_code
                                            (''Error de Notion: '' @
                                             py_get (d_message error_detail) ''Error desconocido'')),
                                     s6))
                         | RequestError msg \<Rightarrow>
                             (Inl (HTTPException 503
                                     (''Error de conexi'' @ [CHR 0xF3] @ ''n con Notion: '' @ msg)),
                              s6))))"

definition enviar_a_notion ::
    "env \<Rightarrow> config \<Rightarrow> TradeData \<Rightarrow> bool \<Rightarrow> state \<Rightarrow> (error + jdict) \<times> state" where
  "enviar_a_notion e cfg trade verificar_duplicado s =
     (if NOTION_API_KEY cfg = [] \<or> NOTION_DATABASE_ID cfg = [] then
        (Inl (HTTPException 500 ''Notion API Key o Database ID no configurados en el servidor.''),
         s)
      else
        (let (existe_res, s1) =
               (if verificar_duplicado
                then verificar_ticket_existe e cfg (ticket trade) (identificador_cuenta trade) s
                else (Inr False, s))
         in case existe_res of
              Inl err \<Rightarrow> (Inl err, s1)
            | Inr existe \<Rightarrow>
                if existe then
                  (Inr (empty_dict\<lparr> d_id := Some ''duplicate'', d_status := Some ''skipped'',
                                    d_message := Some ''El ticket ya existe en la base de datos'' \<rparr>),
                   s1)
                else crear_trade e cfg trade s1))"

subsection \<open>The drawdown recorder\<close>

definition guardar_drawdown_notion ::
    "env \<Rightarrow> config \<Rightarrow> DrawdownData \<Rightarrow> state \<Rightarrow> (error + jdict) \<times> state" where
  "guardar_drawdown_notion e cfg drawdown s =
     (let db_id = (if NOTION_DRAWDOWN_DB_ID cfg \<noteq> [] then NOTION_DRAWDOWN_DB_ID cfg
                   else NOTION_DATABASE_ID cfg)
      in if NOTION_API_KEY cfg = [] \<or> db_id = [] then
           (Inr (empty_dict\<lparr> d_status := Some ''logged_only'',
                              d_message := Some ''No hay base de datos de drawdown configurada'' \<rparr>),
            s)
         else if NOTION_DRAWDOWN_DB_ID cfg = [] then
           (Inr (empty_dict\<lparr> d_status := Some ''logged'',
                              d_message := Some ''Drawdown registrado en logs'' \<rparr>), s)
         else
           (let (fecha_iso, s1) = formatear_fecha_notion e (dd_timestamp drawdown) s;
                pl = JObj [(''parent'', JObj [(''database_id'', JStr (NOTION_DRAWDOWN_DB_ID cfg))]),
                           (''properties'',
                              JObj [(''Timestamp'',
                                       JObj [(''title'',
                                                JArr [JObj [(''text'',
                                                               JObj [(''content'', JStr fecha_iso)])]])]),
                                    (''Cuenta'',
                                       JObj [(''select'',
                                                JObj [(''name'', JStr (dd_identificador_cuenta drawdown))])]),
                                    (''Magic Number'', JObj [(''number'', JInt (dd_magic_number drawdown))]),
                                    (''Balance'', JObj [(''number'', JFloat (dd_balance drawdown))]),
                                    (''Equity'', JObj [(''number'', JFloat (dd_equity drawdown))]),
                                    (''Peak Balance'',
                                       JObj [(''number'', JFloat (dd_peak_balance drawdown))]),
                                    (''DD Cuenta ($)'',
                                       JObj [(''number'', JFloat (dd_drawdown_cuenta drawdown))]),
                                    (''DD Cuenta (%)'',
                                       JObj [(''number'', JFloat (dd_drawdown_cuenta_pct drawdown))]),
                                    (''DD Estrategia ($)'',
                                       JObj [(''number'', JFloat (dd_drawdown_estrategia drawdown))]),
                                    (''Max DD Estrategia ($)'',
                                       JObj [(''number'', JFloat (dd_max_drawdown_estrategia drawdown))]),
                                    (''Peak Estrategia'',
                                       JObj [(''number'', JFloat (dd_peak_estrategia drawdown))])])];
                (r, s2) = post e \<lparr> url = NOTION_API_URL, headers = get_notion_headers cfg,
                                    payload = pl, timeout = 30 \<rparr> s1
            in case r of
                 Response status_code body \<Rightarrow>
                   if status_code = 200 then
                     (case response_json body of
                        Inl err \<Rightarrow> (Inl err, s2)
                      | Inr data \<Rightarrow> (Inr data, s2))
                   else
                     (case response_json body of
                        Inl err \<Rightarrow> (Inl err, s2)
                      | Inr error_detail \<Rightarrow> (Inr (empty_dict\<lparr> d_status := Some ''error'' \<rparr>), s2))
               | RequestError msg \<Rightarrow> (Inr (empty_dict\<lparr> d_status := Some ''error'' \<rparr>), s2)))"

subsection \<open>The endpoints /trade/batch and /sync\<close>

record batch_response =
  total_recibidos :: nat
  exitosos :: nat
  omitidos :: nat
  fallidos :: nat
  resultados :: "json list"
  omitidos_detalle :: "json list"
  errores :: "json list"

text \<open>
  The \<^verbatim>\<open>for trade in trades\<close> loop with its three lists (\<open>resultados\<close>,
  \<open>errores\<close>, \<open>omitidos\<close>). \<^verbatim>\<open>except HTTPException\<close> catches that exception only: any
  other one (the ValueError of a body that does not decode) leaves the loop and the
  endpoint, and the three lists are lost with it.
\<close>

fun batch_loop ::
    "env \<Rightarrow> config \<Rightarrow> TradeData list \<Rightarrow> json list \<times> json list \<times> json list \<Rightarrow> state
      \<Rightarrow> (error + json list \<times> json list \<times> json list) \<times> state" where
  "batch_loop e cfg [] acc s = (Inr acc, s)"
| "batch_loop e cfg (trade # rest) (res, errs, omit) s =
     (case enviar_a_notion e cfg trade True s of
        (Inr res_notion, s1) \<Rightarrow>
          if d_status res_notion = Some ''skipped'' then
            batch_loop e cfg rest
              (res, errs,
               omit @ [JObj [(''ticket'', JInt (ticket trade)), (''status'', JStr ''skipped''),
                             (''message'', JStr ''Ya existe'')]]) s1
          else
            batch_loop e cfg rest
              (res @ [JObj [(''ticket'', JInt (ticket trade)), (''status'', JStr ''success''),
                            (''page_id'', JStr (py_get (d_id res_notion) []))]],
               errs, omit) s1
      | (Inl (HTTPException code detail), s1) \<Rightarrow>
          batch_loop e cfg rest
            (res,
             errs @ [JObj [(''ticket'', JInt (ticket trade)), (''status'', JStr ''error''),
                           (''detail'', JStr detail)]],
             omit) s1
      | (Inl (ValueError msg), s1) \<Rightarrow> (Inl (ValueError msg), s1))"

definition registrar_trades_batch ::
    "env \<Rightarrow> config \<Rightarrow> TradeData list \<Rightarrow> state \<Rightarrow> (error + batch_response) \<times> state" where
  "registrar_trades_batch e cfg trades s =
     (case batch_loop e cfg trades ([], [], []) s of
        (Inl err, s') \<Rightarrow> (Inl err, s')
      | (Inr (res, errs, omit), s') \<Rightarrow>
          (Inr \<lparr> total_recibidos = length trades, exitosos = length res,
                 omitidos = length omit, fallidos = length errs, resultados = res,
                 omitidos_detalle = omit, errores = errs \<rparr>, s'))"

definition sincronizar_historial ::
    "env \<Rightarrow> config \<Rightarrow> TradeData list \<Rightarrow> state \<Rightarrow> (error + batch_response) \<times> state" where
  "sincronizar_historial e cfg trades s = registrar_trades_batch e cfg trades s"

subsection \<open>The syntax of an ISO 8601 timestamp\<close>

text \<open>
  What the claims call a syntactically valid ISO 8601 string: four digits of year,
  two of month and of day, the letter T, two digits of hour, minute and second, with
  the separators \<open>-\<close> and \<open>:\<close>, the fields in their calendar and clock ranges,
  and optionally a point and six digits of fraction.
\<close>

definition take_digits :: "nat \<Rightarrow> string \<Rightarrow> (nat \<times> string) option" where
  "take_digits n s =
     (if n \<le> length s \<and> list_all is_ascii_digit (take n s)
      then Some (nat_of_digits (take n s), drop n s) else None)"

definition take_char :: "char \<Rightarrow> string \<Rightarrow> string option" where
  "take_char c s = (case s of [] \<Rightarrow> None | x # xs \<Rightarrow> if x = c then Some xs else None)"

definition iso_fields :: "string \<Rightarrow> ((nat \<times> nat \<times> nat \<times> nat \<times> nat \<times> nat) \<times> string) option" where
  "iso_fields s =
     Option.bind (take_digits 4 s) (\<lambda>(y, r1).
     Option.bind (take_char CHR ''-'' r1) (\<lambda>r2.
     Option.bind (take_digits 2 r2) (\<lambda>(mo, r3).
     Option.bind (take_char CHR ''-'' r3) (\<lambda>r4.
     Option.bind (take_digits 2 r4) (\<lambda>(d, r5).
     Option.bind (take_char CHR ''T'' r5) (\<lambda>r6.
     Option.bind (take_digits 2 r6) (\<lambda>(h, r7).
     Option.bind (take_char CHR '':'' r7) (\<lambda>r8.
     Option.bind (take_digits 2 r8) (\<lambda>(mi, r9).
     Option.bind (take_char CHR '':'' r9) (\<lambda>r10.
     Option.bind (take_digits 2 r10) (\<lambda>(se, r11).
     Some ((y, mo, d, h, mi, se), r11))))))))))))"

definition is_iso8601 :: "string \<Rightarrow> bool" where
  "is_iso8601 s =
     (case iso_fields s of
        None \<Rightarrow> False
      | Some ((y, mo, d, h, mi, se), rest) \<Rightarrow>
          1 \<le> mo \<and> mo \<le> 12 \<and> 1 \<le> d \<and> d \<le> days_in_month y mo \<and>
          h < 24 \<and> mi < 60 \<and> se < 60 \<and>
          (rest = [] \<or>
           (case take_char CHR ''.'' rest of
              None \<Rightarrow> False
            | Some us \<Rightarrow> take_digits 6 us \<noteq> None \<and> length us = 6)))"

subsection \<open>Concrete inputs\<close>

text \<open>A clock reading, a fresh process, a configuration and stores, for the examples.\<close>

definition ex_now :: datetime where
  "ex_now = \<lparr> year = 2026, month = 11, day = 4, hour = 9, minute = 30, second = 0,
              microsecond = 250000 \<rparr>"

definition ex_state :: state where
  "ex_state = \<lparr> cache_cuentas = Map.empty, cache_estrategias = Map.empty, sent = [], ticks = 0 \<rparr>"

definition ex_env_down :: env where
  "ex_env_down = \<lparr> net = (\<lambda>h. RequestError ''timed out''), clock = (\<lambda>n. ex_now) \<rparr>"

definition ex_env_500 :: env where
  "ex_env_500 = \<lparr> net = (\<lambda>h. Response 500 (Some empty_dict)), clock = (\<lambda>n. ex_now) \<rparr>"

text \<open>A store in which every query finds the page \<open>page-1\<close>.\<close>

definition ex_env_found :: env where
  "ex_env_found =
     \<lparr> net = (\<lambda>h. Response 200
                       (Some (empty_dict\<lparr> d_results := Some [\<lparr> p_id = ''page-1'',
                                                                   p_properties = None \<rparr>],
                                           d_id := Some ''page-1'' \<rparr>))),
       clock = (\<lambda>n. ex_now) \<rparr>"


text \<open>
  A store whose only page has the ticket title of one character, the superscript two
  (U+00B2).
\<close>

definition ex_env_superscript :: env where
  "ex_env_superscript =
     \<lparr> net = (\<lambda>h. Response 200
                 (Some (empty_dict\<lparr> d_results :=
                    Some [\<lparr> p_id = ''page-3'',
                            p_properties =
                              Some [(''Ticket'',
                                     \<lparr> pr_title =
                                         Some [\<lparr> rt_text =
                                                   Some \<lparr> t_content = Some [CHR 0xB2] \<rparr> \<rparr>] \<rparr>)] \<rparr>],
                    d_has_more := Some False \<rparr>))),
       clock = (\<lambda>n. ex_now) \<rparr>"

definition ex_cfg :: config where
  "ex_cfg = \<lparr> NOTION_API_KEY = ''secret'', NOTION_DATABASE_ID = ''db-trades'',
              NOTION_CUENTAS_DB_ID = ''db-cuentas'', NOTION_ESTRATEGIAS_DB_ID = ''db-estrategias'',
              NOTION_DRAWDOWN_DB_ID = [] \<rparr>"

definition ex_cfg_unset :: config where
  "ex_cfg_unset = \<lparr> NOTION_API_KEY = [], NOTION_DATABASE_ID = [],
                    NOTION_CUENTAS_DB_ID = [], NOTION_ESTRATEGIAS_DB_ID = [],
                    NOTION_DRAWDOWN_DB_ID = [] \<rparr>"

text \<open>Trades are recorded, the auxiliary collections are not configured.\<close>

definition ex_cfg_trades_only :: config where
  "ex_cfg_trades_only = \<lparr> NOTION_API_KEY = ''secret'', NOTION_DATABASE_ID = ''db-trades'',
                          NOTION_CUENTAS_DB_ID = [], NOTION_ESTRATEGIAS_DB_ID = [],
                          NOTION_DRAWDOWN_DB_ID = [] \<rparr>"

definition ex_trade :: TradeData where
  "ex_trade = \<lparr> identificador_cuenta = ''FTMO_01'', ticket = 10042, magic_number = 0,
                simbolo = ''EURUSD'', direccion = ''BUY'', lotes = 1 / 2, pnl = 37,
                resultado = ''WIN'', balance = 10037, fecha_apertura = None,
                fecha_cierre = ''2024.03.11T14:22:09'', comentario = None \<rparr>"

definition ex_drawdown :: DrawdownData where
  "ex_drawdown = \<lparr> dd_identificador_cuenta = ''FTMO_01'', dd_magic_number = 7,
                   dd_balance = 10000, dd_equity = 9900, dd_peak_balance = 10500,
                   dd_drawdown_cuenta = 500, dd_drawdown_cuenta_pct = 5,
                   dd_drawdown_estrategia = 120, dd_max_drawdown_estrategia = 300,
                   dd_peak_estrategia = 900, dd_timestamp = ''2024.03.11T14:22:09'' \<rparr>"

text \<open>A store that rejects the fourth request it receives and accepts every other one.\<close>

definition ex_env_reject_4th :: env where
  "ex_env_reject_4th =
     \<lparr> net = (\<lambda>h. if length h = 4
                   then Response 400
                          (Some (empty_dict\<lparr> d_message := Some ''body failed validation'' \<rparr>))
                   else Response 200
                          (Some (empty_dict\<lparr> d_results := Some [], d_id := Some ''page-2'' \<rparr>))),
       clock = (\<lambda>n. ex_now) \<rparr>"

text \<open>
  A store behind a gateway: the fourth request is answered 502 with the gateway's HTML
  page, every other one is accepted.
\<close>

definition ex_env_gateway_4th :: env where
  "ex_env_gateway_4th =
     \<lparr> net = (\<lambda>h. if length h = 4
                   then Response 502 None
                   else Response 200
                          (Some (empty_dict\<lparr> d_results := Some [], d_id := Some ''page-2'' \<rparr>))),
       clock = (\<lambda>n. ex_now) \<rparr>"

definition ex_trades :: "TradeData list" where
  "ex_trades = [ex_trade, ex_trade\<lparr> ticket := 10043 \<rparr>, ex_trade\<lparr> ticket := 10044 \<rparr>]"

subsection \<open>Vocabulary of the properties\<close>

text \<open>
  The outcome of each record of a batch, in input order: the Trade Recorder is applied
  to one record after the other, each on the state the previous one left.
  \<open>bucket b\<close> lists the tickets of the records with outcome \<open>b\<close>, in input order,
  as the entries of a response hold them.
\<close>

datatype outcome = Succeeded | Skipped | Failed

fun outcomes :: "env \<Rightarrow> config \<Rightarrow> TradeData list \<Rightarrow> state \<Rightarrow> outcome list" where
  "outcomes e cfg [] s = []"
| "outcomes e cfg (trade # rest) s =
     (case enviar_a_notion e cfg trade True s of
        (Inr d, s1) \<Rightarrow>
          (if d_status d = Some ''skipped'' then Skipped else Succeeded) # outcomes e cfg rest s1
      | (Inl err, s1) \<Rightarrow> Failed # outcomes e cfg rest s1)"

definition json_field :: "string \<Rightarrow> json \<Rightarrow> json option" where
  "json_field k j = (case j of JObj kvs \<Rightarrow> map_of kvs k | _ \<Rightarrow> None)"

definition bucket :: "outcome \<Rightarrow> TradeData list \<Rightarrow> outcome list \<Rightarrow> json option list" where
  "bucket b trades outs =
     map (\<lambda>p. Some (JInt (ticket (fst p)))) (filter (\<lambda>p. snd p = b) (zip trades outs))"

text \<open>A store all of whose response bodies are JSON.\<close>

definition decodable :: "env \<Rightarrow> bool" where
  "decodable e = (\<forall>h code. net e h \<noteq> Response code None)"

text \<open>The ticket title of a page as the loop reads it.\<close>

definition ticket_str_of :: "page \<Rightarrow> string option" where
  "ticket_str_of pg =
     (case py_get (pr_title (py_get (map_of (py_get (p_properties pg) []) ''Ticket'')
                               \<lparr> pr_title = None \<rparr>)) [] of
        [] \<Rightarrow> None
      | t0 # _ \<Rightarrow> Some (py_get (t_content (py_get (rt_text t0) \<lparr> t_content = None \<rparr>)) []))"

definition decimal_tickets :: "page list \<Rightarrow> int list" where
  "decimal_tickets pgs =
     map (\<lambda>s. int (nat_of_digits s))
       (filter (\<lambda>s. s \<noteq> [] \<and> list_all is_ascii_digit s) (List.map_filter ticket_str_of pgs))"

definition superscript_free :: "page list \<Rightarrow> bool" where
  "superscript_free pgs =
     list_all (\<lambda>s. isdigit s = (s \<noteq> [] \<and> list_all is_ascii_digit s)) (List.map_filter ticket_str_of pgs)"

section \<open>Properties\<close>

subsection \<open>Digits and timestamps\<close>

lemma below_ten: "k < 10 \<Longrightarrow> k \<in> {0, 1, 2, 3, 4, 5, 6, 7, 8, 9 :: nat}"
  by (simp; arith)

lemma digit_char_ascii: "is_ascii_digit (digit_char n)"
proof -
  have "n mod 10 \<in> {0,1,2,3,4,5,6,7,8,9}" by (rule below_ten) simp
  then show ?thesis
    by (auto simp: digit_char_def is_ascii_digit_def digit_chars_def)
qed

lemma digit_val_char: "digit_val (digit_char n) = n mod 10"
proof -
  have "n mod 10 \<in> {0,1,2,3,4,5,6,7,8,9}" by (rule below_ten) simp
  then show ?thesis
    by (auto simp: digit_char_def digit_val_def digit_chars_def)
qed

lemma nat_of_digits_snoc: "nat_of_digits (s @ [c]) = 10 * nat_of_digits s + digit_val c"
  by (simp add: nat_of_digits_def)

lemma str_nat_digits: "list_all is_ascii_digit (str_nat n)"
  by (induction n rule: str_nat.induct) (subst str_nat.simps, simp add: digit_char_ascii)

lemma nat_of_digits_str_nat: "nat_of_digits (str_nat n) = n"
proof (induction n rule: str_nat.induct)
  case (1 n)
  show ?case
  proof (cases "n < 10")
    case True
    then show ?thesis
      by (subst str_nat.simps) (simp add: nat_of_digits_def digit_val_char)
  next
    case False
    with 1 show ?thesis
      by (subst str_nat.simps) (simp add: nat_of_digits_snoc digit_val_char)
  qed
qed

lemma length_str_nat: "n < 10 ^ w \<Longrightarrow> 0 < w \<Longrightarrow> length (str_nat n) \<le> w"
proof (induction n arbitrary: w rule: str_nat.induct)
  case (1 n)
  show ?case
  proof (cases "n < 10")
    case True
    with 1(3) show ?thesis by (subst str_nat.simps) simp
  next
    case False
    obtain v where w: "w = Suc v" using 1(3) by (cases w) auto
    have v0: "0 < v"
    proof (rule ccontr)
      assume "\<not> 0 < v"
      then have "w = 1" using w by simp
      with 1(2) False show False by simp
    qed
    have "n div 10 < 10 ^ v" using 1(2) w by (simp add: less_mult_imp_div_less mult.commute)
    then have "length (str_nat (n div 10)) \<le> v" using 1(1) False v0 by blast
    then show ?thesis using False w by (subst str_nat.simps) simp
  qed
qed

lemma nat_of_digits_zeros: "nat_of_digits (replicate k CHR ''0'' @ s) = nat_of_digits s"
proof -
  have z: "digit_val CHR ''0'' = 0" by (simp add: digit_val_def)
  have "foldl (\<lambda>acc c. 10 * acc + digit_val c) 0 (replicate k CHR ''0'') = 0"
    by (induction k) (simp_all add: z)
  then show ?thesis by (simp add: nat_of_digits_def)
qed

lemma zeros_digits: "list_all is_ascii_digit (replicate k CHR ''0'')"
  by (induction k) (simp_all add: is_ascii_digit_def digit_chars_def)

lemma zpad_props:
  assumes "n < 10 ^ w" "0 < w"
  shows "length (zpad w n) = w" "list_all is_ascii_digit (zpad w n)" "nat_of_digits (zpad w n) = n"
  using length_str_nat[OF assms]
  by (simp_all add: zpad_def str_nat_digits nat_of_digits_zeros nat_of_digits_str_nat
        zeros_digits)

lemma take_digits_zpad:
  assumes "n < 10 ^ w" "0 < w"
  shows "take_digits w (zpad w n @ rest) = Some (n, rest)"
  using zpad_props[OF assms] by (simp add: take_digits_def)


lemma take_char_Cons: "take_char c (c # rest) = Some rest"
  by (simp add: take_char_def)

lemma iso_fields_isoformat:
  assumes "valid_datetime d"
  shows "iso_fields (isoformat d) =
           Some ((year d, month d, day d, hour d, minute d, second d),
                 (if microsecond d \<noteq> 0 then ''.'' @ zpad 6 (microsecond d) else []))"
proof -
  have dm: "days_in_month (year d) (month d) \<le> 31"
    by (simp add: days_in_month_def)
  have b: "year d < 10 ^ 4" "month d < 10 ^ 2" "day d < 10 ^ 2" "hour d < 10 ^ 2"
          "minute d < 10 ^ 2" "second d < 10 ^ 2"
    using assms dm by (simp_all add: valid_datetime_def)
  show ?thesis
    unfolding isoformat_def iso_fields_def
    by (simp only: take_digits_zpad[OF b(1)] take_digits_zpad[OF b(2)] take_digits_zpad[OF b(3)]
          take_digits_zpad[OF b(4)] take_digits_zpad[OF b(5)] take_digits_zpad[OF b(6)]
          take_char_Cons append_Cons append_Nil Option.bind.simps prod.case zero_less_numeral)
qed

lemma isoformat_iso8601:
  assumes "valid_datetime d"
  shows "is_iso8601 (isoformat d)"
proof -
  have us: "microsecond d < 10 ^ 6" using assms by (simp add: valid_datetime_def)
  have fr: "take_digits 6 (zpad 6 (microsecond d)) \<noteq> None \<and> length (zpad 6 (microsecond d)) = 6"
    using take_digits_zpad[OF us, of "[]"] zpad_props(1)[OF us] by simp
  show ?thesis
    using assms fr
    by (simp add: is_iso8601_def iso_fields_isoformat take_char_Cons valid_datetime_def)
qed

lemma strptime_valid: "strptime s f = Some d \<Longrightarrow> valid_datetime d"
  by (auto simp: strptime_def Let_def split: list.splits if_splits prod.splits)


lemma probar_formatos_first:
  "fst (probar_formatos e x fs s) =
     (case List.map_filter (strptime x) fs of
        d # _ \<Rightarrow> isoformat d
      | [] \<Rightarrow> isoformat (clock e (ticks s)))"
  by (induction fs) (simp_all add: map_filter_simps datetime_now_def split: option.splits)

lemma strptime_empty:
  "strptime [] (CHR ''%'' # CHR ''Y'' # rest) = None"
  by (simp add: strptime_def directive_alts_def match_alt_def)

lemma formatos_empty: "List.map_filter (strptime []) formatos_posibles = []"
  by (simp add: formatos_posibles_def map_filter_simps strptime_empty)

text \<open>
  C5. The Date Normalizer returns, for every input string, the ISO rendering of the
  first of the four layouts (in the order of the source) that parses it, and the
  rendering of the current time when none does or the string is empty; there is no
  path on which it raises, and the string it returns is a syntactically valid
  ISO 8601 timestamp whenever the clock gives valid times.
\<close>

theorem formatear_fecha_notion_never_fails:
  assumes "\<forall>n. valid_datetime (clock e n)"
  shows "fst (formatear_fecha_notion e fecha_str s) =
           (case List.map_filter (strptime fecha_str)
                   [''%Y.%m.%dT%H:%M:%S'', ''%Y-%m-%dT%H:%M:%S'',
                    ''%Y.%m.%d %H:%M:%S'', ''%Y-%m-%d %H:%M:%S''] of
              d # _ \<Rightarrow> isoformat d
            | [] \<Rightarrow> isoformat (clock e (ticks s)))
         \<and> is_iso8601 (fst (formatear_fecha_notion e fecha_str s))"
proof -
  let ?ds = "List.map_filter (strptime fecha_str) formatos_posibles"
  have eq: "fst (formatear_fecha_notion e fecha_str s) =
              (case ?ds of d # _ \<Rightarrow> isoformat d | [] \<Rightarrow> isoformat (clock e (ticks s)))"
  proof (cases "fecha_str = []")
    case True
    then show ?thesis
      by (simp add: formatear_fecha_notion_def datetime_now_def formatos_empty)
  next
    case False
    then show ?thesis
      by (simp add: formatear_fecha_notion_def probar_formatos_first)
  qed
  have "is_iso8601 (case ?ds of d # _ \<Rightarrow> isoformat d | [] \<Rightarrow> isoformat (clock e (ticks s)))"
  proof (cases ?ds)
    case Nil
    then show ?thesis using assms by (simp add: isoformat_iso8601)
  next
    case (Cons d ds)
    then have "d \<in> set ?ds" by simp
    then obtain f where "strptime fecha_str f = Some d"
      by (auto simp: map_filter_def)
    then have "valid_datetime d" by (rule strptime_valid)
    then show ?thesis using Cons by (simp add: isoformat_iso8601)
  qed
  with eq show ?thesis by (simp add: formatos_posibles_def)
qed

theorem formatear_fecha_notion_witness:
  "(\<forall>n. valid_datetime (clock ex_env_down n)) \<and>
   is_iso8601 (fst (formatear_fecha_notion ex_env_down ''ayer por la tarde'' ex_state))"
proof -
  have h: "\<forall>n. valid_datetime (clock ex_env_down n)"
    by (simp add: ex_env_down_def ex_now_def valid_datetime_def days_in_month_def)
  show ?thesis
    using h formatear_fecha_notion_never_fails[OF h, of "''ayer por la tarde''" ex_state]
    by blast
qed

text \<open>An evaluation: a timestamp in the terminal's layout.\<close>

lemma ex_cierre: "strptime ''2024.03.11T14:22:09'' ''%Y.%m.%dT%H:%M:%S'' =
   Some \<lparr> year = 2024, month = 3, day = 11, hour = 14, minute = 22, second = 9, microsecond = 0 \<rparr>"
  by (simp add: strptime_def is_space_def directive_alts_def match_alt_def digit_chars_def
        same_ci_def lower_char_def group_val_def nat_of_digits_def digit_val_def is_ascii_digit_def
        valid_datetime_def days_in_month_def)

lemma ex_cierre_iso: "formatear_fecha_notion e ''2024.03.11T14:22:09'' s = (''2024-03-11T14:22:09'', s)"
  by (simp add: formatear_fecha_notion_def formatos_posibles_def ex_cierre isoformat_def zpad_def
        str_nat.simps digit_char_def digit_chars_def)

subsection \<open>The duplicate checker\<close>

text \<open>
  C2. For every ticket and account, the Duplicate Checker gives the same result and
  leaves the same state whichever account it is given: the one request it sends
  (when the primary collection is configured) queries the primary collection with the
  filter "Ticket equals the ticket number" and page size 1, and the account occurs
  nowhere in it.
\<close>

theorem verificar_ticket_existe_ticket_only:
  "verificar_ticket_existe e cfg tkt cuenta s = verificar_ticket_existe e cfg tkt cuenta' s \<and>
   sent (snd (verificar_ticket_existe e cfg tkt cuenta s)) =
     (if NOTION_API_KEY cfg = [] \<or> NOTION_DATABASE_ID cfg = [] then sent s
      else sent s @
        [\<lparr> url = ''https://api.notion.com/v1/databases/'' @ NOTION_DATABASE_ID cfg @ ''/query'',
            headers = [(''Authorization'', ''Bearer '' @ NOTION_API_KEY cfg),
                       (''Content-Type'', ''application/json''),
                       (''Notion-Version'', ''2022-06-28'')],
            payload = JObj [(''filter'', JObj [(''property'', JStr ''Ticket''),
                                              (''number'', JObj [(''equals'', JInt tkt)])]),
                            (''page_size'', JInt 1)],
            timeout = 30 \<rparr>])"
  by (simp add: verificar_ticket_existe_def post_def get_notion_headers_def NOTION_QUERY_URL_def
        NOTION_VERSION_def Let_def split: reply.splits sum.splits)

text \<open>
  C3. When the reply to the Duplicate Checker's query is a connectivity failure or a
  response whose status is not 2xx, the checker returns False and does not raise (the
  body of such a reply is never decoded); and when it returns True, the reply was a
  response with a 2xx status (the code accepts 200 only) whose body decoded to a result
  list that is not empty.
\<close>

theorem verificar_ticket_existe_fails_open:
  fixes e cfg tkt cuenta s
  defines "r \<equiv> net e (sent s @
        [\<lparr> url = ''https://api.notion.com/v1/databases/'' @ NOTION_DATABASE_ID cfg @ ''/query'',
            headers = [(''Authorization'', ''Bearer '' @ NOTION_API_KEY cfg),
                       (''Content-Type'', ''application/json''),
                       (''Notion-Version'', ''2022-06-28'')],
            payload = JObj [(''filter'', JObj [(''property'', JStr ''Ticket''),
                                              (''number'', JObj [(''equals'', JInt tkt)])]),
                            (''page_size'', JInt 1)],
            timeout = 30 \<rparr>])"
  shows "(((\<exists>msg. r = RequestError msg) \<or>
           (\<exists>code body. r = Response code body \<and> \<not> (200 \<le> code \<and> code < 300)))
            \<longrightarrow> fst (verificar_ticket_existe e cfg tkt cuenta s) = Inr False) \<and>
         (fst (verificar_ticket_existe e cfg tkt cuenta s) = Inr True
            \<longrightarrow> (\<exists>code d. r = Response code (Some d) \<and> 200 \<le> code \<and> code < 300 \<and>
                          py_get (d_results d) [] \<noteq> []))"
  unfolding r_def
  by (auto simp: verificar_ticket_existe_def post_def get_notion_headers_def NOTION_QUERY_URL_def
        NOTION_VERSION_def response_json_def Let_def
        split: reply.splits option.splits if_splits)

theorem verificar_ticket_existe_fails_open_witness:
  "fst (verificar_ticket_existe ex_env_down ex_cfg 10042 ''FTMO_01'' ex_state) = Inr False \<and>
   fst (verificar_ticket_existe ex_env_500 ex_cfg 10042 ''FTMO_01'' ex_state) = Inr False \<and>
   fst (verificar_ticket_existe ex_env_found ex_cfg 10042 ''FTMO_01'' ex_state) = Inr True"
  using verificar_ticket_existe_fails_open[of ex_env_down ex_state ex_cfg 10042 "''FTMO_01''"]
        verificar_ticket_existe_fails_open[of ex_env_500 ex_state ex_cfg 10042 "''FTMO_01''"]
  by (simp add: ex_env_down_def ex_env_500_def ex_env_found_def ex_cfg_def ex_state_def
        verificar_ticket_existe_def post_def empty_dict_def py_get_def response_json_def)

subsection \<open>The relation resolver\<close>

lemmas resolver_defs =
  buscar_o_crear_cuenta_def crear_cuenta_def buscar_o_crear_estrategia_def crear_estrategia_def
  post_def response_json_def Let_def

lemma buscar_o_crear_cuenta_cached:
  assumes "buscar_o_crear_cuenta e cfg nombre s = (r, s1)"
  shows "(\<forall>pid. r = Inr pid \<and> pid \<noteq> [] \<longrightarrow> cache_cuentas s1 nombre = Some pid) \<and>
         (cache_cuentas s1 nombre \<noteq> None \<longrightarrow> (\<exists>pid. r = Inr pid \<and> cache_cuentas s1 nombre = Some pid)) \<and>
         (cache_cuentas s1 nombre = None \<longrightarrow>
            (\<forall>pid. r = Inr pid \<longrightarrow> pid = []) \<and> cache_cuentas s1 = cache_cuentas s) \<and>
         (\<exists>rs. sent s1 = sent s @ rs \<and> length rs \<le> 2)"
  using assms
  by (auto simp: resolver_defs split: option.splits if_splits reply.splits list.splits)

lemma buscar_o_crear_estrategia_cached:
  assumes "buscar_o_crear_estrategia e cfg magic s = (r, s1)"
  shows "(\<forall>pid. r = Inr pid \<and> pid \<noteq> [] \<longrightarrow> cache_estrategias s1 magic = Some pid) \<and>
         (cache_estrategias s1 magic \<noteq> None \<longrightarrow>
            (\<exists>pid. r = Inr pid \<and> cache_estrategias s1 magic = Some pid)) \<and>
         (cache_estrategias s1 magic = None \<longrightarrow>
            (\<forall>pid. r = Inr pid \<longrightarrow> pid = []) \<and> cache_estrategias s1 = cache_estrategias s) \<and>
         (\<exists>rs. sent s1 = sent s @ rs \<and> length rs \<le> 2)"
  using assms
  by (auto simp: resolver_defs split: option.splits if_splits reply.splits list.splits)

lemma buscar_o_crear_cuenta_hit:
  "cache_cuentas s nombre = Some pid \<Longrightarrow> buscar_o_crear_cuenta e cfg nombre s = (Inr pid, s)"
  by (simp add: buscar_o_crear_cuenta_def)

lemma buscar_o_crear_estrategia_hit:
  "cache_estrategias s magic = Some pid \<Longrightarrow>
     buscar_o_crear_estrategia e cfg magic s = (Inr pid, s)"
  by (simp add: buscar_o_crear_estrategia_def)

text \<open>
  C7, amended. A resolution that succeeded (it returned a non-empty identifier, or it
  left the key in the RelationCache: a cache hit, a lookup match, or a create answered
  200) returned an identifier, sent at most the two requests of one lookup-or-create
  sequence, and a second resolution of the same key returns the same identifier and
  leaves the state as it is, so it sends nothing. This holds for account names and for
  magic numbers. A resolution after which the key is not in the cache (it failed, or
  its collection is not configured) returned no identifier but the empty one and left
  the cache as it was.
\<close>

theorem relation_memoization:
  "(buscar_o_crear_cuenta e cfg nombre s = (r, s1) \<and>
      ((\<exists>pid. r = Inr pid \<and> pid \<noteq> []) \<or> cache_cuentas s1 nombre \<noteq> None)
    \<longrightarrow> (\<exists>pid. r = Inr pid) \<and> buscar_o_crear_cuenta e cfg nombre s1 = (r, s1) \<and>
        (\<exists>rs. sent s1 = sent s @ rs \<and> length rs \<le> 2)) \<and>
   (buscar_o_crear_estrategia e cfg magic t = (r', t1) \<and>
      ((\<exists>eid. r' = Inr eid \<and> eid \<noteq> []) \<or> cache_estrategias t1 magic \<noteq> None)
    \<longrightarrow> (\<exists>eid. r' = Inr eid) \<and> buscar_o_crear_estrategia e cfg magic t1 = (r', t1) \<and>
        (\<exists>rs. sent t1 = sent t @ rs \<and> length rs \<le> 2)) \<and>
   (buscar_o_crear_cuenta e cfg nombre s = (r, s1) \<and> cache_cuentas s1 nombre = None
    \<longrightarrow> (\<forall>pid. r = Inr pid \<longrightarrow> pid = []) \<and> cache_cuentas s1 = cache_cuentas s) \<and>
   (buscar_o_crear_estrategia e cfg magic t = (r', t1) \<and> cache_estrategias t1 magic = None
    \<longrightarrow> (\<forall>eid. r' = Inr eid \<longrightarrow> eid = []) \<and> cache_estrategias t1 = cache_estrategias t)"
proof (intro conjI impI)
  assume a: "buscar_o_crear_cuenta e cfg nombre s = (r, s1) \<and>
               ((\<exists>pid. r = Inr pid \<and> pid \<noteq> []) \<or> cache_cuentas s1 nombre \<noteq> None)"
  then obtain pid where pid: "r = Inr pid" "cache_cuentas s1 nombre = Some pid"
    using buscar_o_crear_cuenta_cached[of e cfg nombre s r s1] by blast
  then show "\<exists>pid. r = Inr pid" by blast
  show "buscar_o_crear_cuenta e cfg nombre s1 = (r, s1)"
    using pid by (simp add: buscar_o_crear_cuenta_hit)
  show "\<exists>rs. sent s1 = sent s @ rs \<and> length rs \<le> 2"
    using a buscar_o_crear_cuenta_cached[of e cfg nombre s r s1] by blast
next
  assume a: "buscar_o_crear_estrategia e cfg magic t = (r', t1) \<and>
               ((\<exists>eid. r' = Inr eid \<and> eid \<noteq> []) \<or> cache_estrategias t1 magic \<noteq> None)"
  then obtain eid where eid: "r' = Inr eid" "cache_estrategias t1 magic = Some eid"
    using buscar_o_crear_estrategia_cached[of e cfg magic t r' t1] by blast
  then show "\<exists>eid. r' = Inr eid" by blast
  show "buscar_o_crear_estrategia e cfg magic t1 = (r', t1)"
    using eid by (simp add: buscar_o_crear_estrategia_hit)
  show "\<exists>rs. sent t1 = sent t @ rs \<and> length rs \<le> 2"
    using a buscar_o_crear_estrategia_cached[of e cfg magic t r' t1] by blast
next
  assume a: "buscar_o_crear_cuenta e cfg nombre s = (r, s1) \<and> cache_cuentas s1 nombre = None"
  then show "\<forall>pid. r = Inr pid \<longrightarrow> pid = []" "cache_cuentas s1 = cache_cuentas s"
    using buscar_o_crear_cuenta_cached[of e cfg nombre s r s1] by blast+
next
  assume a: "buscar_o_crear_estrategia e cfg magic t = (r', t1) \<and>
               cache_estrategias t1 magic = None"
  then show "\<forall>eid. r' = Inr eid \<longrightarrow> eid = []" "cache_estrategias t1 = cache_estrategias t"
    using buscar_o_crear_estrategia_cached[of e cfg magic t r' t1] by blast+
qed

lemma ex_cuenta_first:
  "buscar_o_crear_cuenta ex_env_found ex_cfg ''FTMO_01'' ex_state =
     (Inr ''page-1'',
      ex_state\<lparr> sent :=
          [\<lparr> url = ''https://api.notion.com/v1/databases/db-cuentas/query'',
              headers = [(''Authorization'', ''Bearer secret''),
                         (''Content-Type'', ''application/json''),
                         (''Notion-Version'', ''2022-06-28'')],
              payload = JObj [(''filter'', JObj [(''property'', JStr ''Nombre''),
                                                (''title'', JObj [(''equals'', JStr ''FTMO_01'')])]),
                              (''page_size'', JInt 1)],
              timeout = 30 \<rparr>],
        cache_cuentas := [''FTMO_01'' \<mapsto> ''page-1''] \<rparr>)"
  by (simp add: resolver_defs ex_env_found_def ex_cfg_def ex_state_def empty_dict_def py_get_def
        get_notion_headers_def NOTION_QUERY_URL_def NOTION_VERSION_def)

theorem relation_memoization_witness:
  "buscar_o_crear_cuenta ex_env_found ex_cfg ''FTMO_01''
     (snd (buscar_o_crear_cuenta ex_env_found ex_cfg ''FTMO_01'' ex_state))
   = buscar_o_crear_cuenta ex_env_found ex_cfg ''FTMO_01'' ex_state \<and>
   fst (buscar_o_crear_cuenta ex_env_found ex_cfg ''FTMO_01'' ex_state) = Inr ''page-1'' \<and>
   length (sent (snd (buscar_o_crear_cuenta ex_env_found ex_cfg ''FTMO_01'' ex_state))) = 1"
  using relation_memoization[of ex_env_found ex_cfg "''FTMO_01''" ex_state "Inr ''page-1''"
          "snd (buscar_o_crear_cuenta ex_env_found ex_cfg ''FTMO_01'' ex_state)"]
  by (simp add: ex_cuenta_first)

text \<open>
  The claim as stated fails when the first resolution fails: against a store that
  answers 500 the first resolution sends one lookup and caches nothing, and the second
  resolution of the same key sends the lookup again.
\<close>

theorem relation_memoization_counterexample:
  "length (sent (snd (buscar_o_crear_cuenta ex_env_500 ex_cfg ''FTMO_01'' ex_state))) = 1 \<and>
   length (sent (snd (buscar_o_crear_cuenta ex_env_500 ex_cfg ''FTMO_01''
                   (snd (buscar_o_crear_cuenta ex_env_500 ex_cfg ''FTMO_01'' ex_state))))) = 2 \<and>
   length (sent (snd (buscar_o_crear_estrategia ex_env_500 ex_cfg 7
                   (snd (buscar_o_crear_estrategia ex_env_500 ex_cfg 7 ex_state))))) = 2"
  by (simp add: resolver_defs ex_env_500_def ex_cfg_def ex_state_def)




text \<open>
  The relation left out: for an empty strategy identifier the payload of the create
  request has no property "Estrategia", and for a non-empty one it has the relation to
  that identifier.
\<close>

lemma trade_payload_estrategia:
  "json_field ''Estrategia''
     (the (json_field ''properties'' (trade_payload cfg trade fc fa cuenta_id estrategia_id))) =
   (if estrategia_id = [] then None
    else Some (JObj [(''relation'', JArr [JObj [(''id'', JStr estrategia_id)]])]))"
  by (simp add: trade_payload_def json_field_def Let_def split: option.splits)

subsection \<open>The trade recorder\<close>

text \<open>
  C4. Whatever the trade and the value of \<open>verificar_duplicado\<close>, when the credential
  or the identifier of the primary collection is not configured the Trade Recorder
  raises the configuration error (HTTPException 500) and leaves the state as it was:
  no request has been sent (no duplicate check, no relation lookup, no create), no
  cache entry written, no clock read.
\<close>

theorem enviar_a_notion_unconfigured:
  assumes "NOTION_API_KEY cfg = [] \<or> NOTION_DATABASE_ID cfg = []"
  shows "enviar_a_notion e cfg trade verificar_duplicado s =
           (Inl (HTTPException 500
                   ''Notion API Key o Database ID no configurados en el servidor.''), s)"
  using assms by (simp add: enviar_a_notion_def)

theorem enviar_a_notion_unconfigured_witness:
  "NOTION_API_KEY ex_cfg_unset = [] \<and>
   enviar_a_notion ex_env_found ex_cfg_unset ex_trade True ex_state =
     (Inl (HTTPException 500
             ''Notion API Key o Database ID no configurados en el servidor.''), ex_state) \<and>
   sent ex_state = []"
proof -
  have h: "NOTION_API_KEY ex_cfg_unset = [] \<or> NOTION_DATABASE_ID ex_cfg_unset = []"
    by (simp add: ex_cfg_unset_def)
  show ?thesis
    using enviar_a_notion_unconfigured[OF h, of ex_env_found ex_trade True ex_state]
    by (simp add: ex_cfg_unset_def ex_state_def)
qed

subsection \<open>The drawdown recorder\<close>

text \<open>
  C1, amended. When no dedicated drawdown collection is configured the Drawdown
  Recorder sends no request at all and leaves the state as it is: it returns status
  "logged_only" when the credential or the primary collection is unset, and status
  "logged" when both are set. The primary collection is never a storage target.
\<close>

theorem guardar_drawdown_notion_no_dedicated:
  assumes "NOTION_DRAWDOWN_DB_ID cfg = []"
  shows "guardar_drawdown_notion e cfg drawdown s =
           (if NOTION_API_KEY cfg = [] \<or> NOTION_DATABASE_ID cfg = []
            then (Inr (empty_dict\<lparr> d_status := Some ''logged_only'',
                                   d_message := Some ''No hay base de datos de drawdown configurada'' \<rparr>),
                  s)
            else (Inr (empty_dict\<lparr> d_status := Some ''logged'',
                                   d_message := Some ''Drawdown registrado en logs'' \<rparr>), s))"
  using assms by (simp add: guardar_drawdown_notion_def)

theorem guardar_drawdown_notion_no_dedicated_witness:
  "NOTION_DRAWDOWN_DB_ID ex_cfg_unset = [] \<and>
   fst (guardar_drawdown_notion ex_env_found ex_cfg_unset ex_drawdown ex_state)
     = Inr (empty_dict\<lparr> d_status := Some ''logged_only'',
                         d_message := Some ''No hay base de datos de drawdown configurada'' \<rparr>) \<and>
   sent (snd (guardar_drawdown_notion ex_env_found ex_cfg_unset ex_drawdown ex_state)) = []"
proof -
  have h: "NOTION_DRAWDOWN_DB_ID ex_cfg_unset = []" by (simp add: ex_cfg_unset_def)
  show ?thesis
    using guardar_drawdown_notion_no_dedicated[OF h, of ex_env_found ex_drawdown ex_state]
    by (simp add: ex_cfg_unset_def ex_state_def)
qed

text \<open>
  The claim as stated fails: with no dedicated collection and the primary collection
  and credential set, the recorder sends nothing to the primary collection (zero
  network calls although the fallback identifier is set) and returns "logged".
\<close>

theorem guardar_drawdown_notion_fallback_counterexample:
  "NOTION_DRAWDOWN_DB_ID ex_cfg = [] \<and> NOTION_DATABASE_ID ex_cfg = ''db-trades'' \<and>
   NOTION_API_KEY ex_cfg = ''secret'' \<and>
   sent (snd (guardar_drawdown_notion ex_env_found ex_cfg ex_drawdown ex_state)) = [] \<and>
   fst (guardar_drawdown_notion ex_env_found ex_cfg ex_drawdown ex_state) =
     Inr (empty_dict\<lparr> d_status := Some ''logged'',
                       d_message := Some ''Drawdown registrado en logs'' \<rparr>)"
  by (simp add: guardar_drawdown_notion_def ex_cfg_def ex_state_def)

subsection \<open>The batch orchestrator\<close>

text \<open>
  Against a store all of whose response bodies are JSON, the duplicate checker and the
  relation resolvers raise nothing, and the Trade Recorder raises nothing but
  HTTPException.
\<close>

lemma verificar_ticket_existe_decodable:
  "decodable e \<Longrightarrow> verificar_ticket_existe e cfg tkt cuenta s \<noteq> (Inl err, s')"
  by (auto simp: verificar_ticket_existe_def post_def response_json_def decodable_def Let_def
        split: reply.splits option.splits if_splits)

lemma buscar_o_crear_cuenta_decodable:
  "decodable e \<Longrightarrow> buscar_o_crear_cuenta e cfg nombre s \<noteq> (Inl err, s')"
  by (auto simp: resolver_defs decodable_def
        split: reply.splits option.splits if_splits list.splits)

lemma buscar_o_crear_estrategia_decodable:
  "decodable e \<Longrightarrow> buscar_o_crear_estrategia e cfg magic s \<noteq> (Inl err, s')"
  by (auto simp: resolver_defs decodable_def
        split: reply.splits option.splits if_splits list.splits)

lemma crear_trade_no_value_error:
  "decodable e \<Longrightarrow> crear_trade e cfg trade s \<noteq> (Inl (ValueError msg), s')"
  by (auto simp: crear_trade_def post_def response_json_def Let_def
        buscar_o_crear_cuenta_decodable buscar_o_crear_estrategia_decodable decodable_def
        split: prod.splits sum.splits reply.splits option.splits if_splits)

lemma enviar_a_notion_no_value_error:
  "decodable e \<Longrightarrow> enviar_a_notion e cfg trade v s \<noteq> (Inl (ValueError msg), s')"
  by (auto simp: enviar_a_notion_def crear_trade_no_value_error verificar_ticket_existe_decodable
        Let_def split: prod.splits sum.splits if_splits)

lemma enviar_cases [consumes 1, case_names ok http]:
  assumes "decodable e"
  obtains (ok) d s1 where "enviar_a_notion e cfg trade True s = (Inr d, s1)"
        | (http) code detail s1 where
            "enviar_a_notion e cfg trade True s = (Inl (HTTPException code detail), s1)"
proof (cases "enviar_a_notion e cfg trade True s")
  case (Pair r s1)
  show ?thesis
  proof (cases r)
    case (Inr d)
    with Pair show ?thesis by (auto intro: ok)
  next
    case (Inl err)
    show ?thesis
    proof (cases err)
      case (HTTPException code detail)
      with Pair Inl show ?thesis by (auto intro: http)
    next
      case (ValueError msg)
      with Pair Inl enviar_a_notion_no_value_error[OF assms, of cfg trade True s msg s1]
      show ?thesis by simp
    qed
  qed
qed

lemma json_field_ticket: "json_field ''ticket'' (JObj ((''ticket'', v) # kvs)) = Some v"
  by (simp add: json_field_def)

lemma batch_loop_run:
  assumes dec: "decodable e"
  shows
  "case batch_loop e cfg trades (res, errs, omit) s of
     (Inl err, s') \<Rightarrow> False
   | (Inr (res', errs', omit'), s') \<Rightarrow>
       s' = foldl (\<lambda>st t. snd (enviar_a_notion e cfg t True st)) s trades \<and>
       map (json_field ''ticket'') res' =
         map (json_field ''ticket'') res @ bucket Succeeded trades (outcomes e cfg trades s) \<and>
       map (json_field ''ticket'') omit' =
         map (json_field ''ticket'') omit @ bucket Skipped trades (outcomes e cfg trades s) \<and>
       map (json_field ''ticket'') errs' =
         map (json_field ''ticket'') errs @ bucket Failed trades (outcomes e cfg trades s)"
proof (induction trades arbitrary: res errs omit s)
  case Nil
  show ?case by (simp add: bucket_def)
next
  case (Cons trade rest)
  from dec show ?case
  proof (cases rule: enviar_cases[where cfg = cfg and trade = trade and s = s])
    case (ok d s1)
    show ?thesis
    proof (cases "d_status d = Some ''skipped''")
      case True
      with ok
        Cons.IH[where res = res and errs = errs and s = s1 and omit =
          "omit @ [JObj [(''ticket'', JInt (ticket trade)), (''status'', JStr ''skipped''),
                         (''message'', JStr ''Ya existe'')]]"]
      show ?thesis
        by (simp add: bucket_def json_field_ticket split: prod.splits sum.splits)
    next
      case False
      with ok
        Cons.IH[where errs = errs and omit = omit and s = s1 and res =
          "res @ [JObj [(''ticket'', JInt (ticket trade)), (''status'', JStr ''success''),
                        (''page_id'', JStr (py_get (d_id d) []))]]"]
      show ?thesis
        by (simp add: bucket_def json_field_ticket split: prod.splits sum.splits)
    qed
  next
    case (http code detail s1)
    with
      Cons.IH[where res = res and omit = omit and s = s1 and errs =
        "errs @ [JObj [(''ticket'', JInt (ticket trade)), (''status'', JStr ''error''),
                       (''detail'', JStr detail)]]"]
    show ?thesis
      by (simp add: bucket_def json_field_ticket split: prod.splits sum.splits)
  qed
qed

lemma length_outcomes: "length (outcomes e cfg trades s) = length trades"
  by (induction trades arbitrary: s) (auto split: prod.splits sum.splits)

lemma outcomes_partition:
  "length (filter (\<lambda>p. snd p = Succeeded) zs) + length (filter (\<lambda>p. snd p = Skipped) zs) +
   length (filter (\<lambda>p. snd p = Failed) zs) = length zs"
proof (induction zs)
  case Nil
  show ?case by simp
next
  case (Cons z zs)
  then show ?case by (cases "snd z") simp_all
qed

lemma buckets_partition:
  "length (bucket Succeeded ts os) + length (bucket Skipped ts os) + length (bucket Failed ts os)
     = min (length ts) (length os)"
  using outcomes_partition[of "zip ts os"] by (simp add: bucket_def)

text \<open>
  The partition, against a store all of whose response bodies are JSON: the batch
  returns a response; the state it leaves is the one obtained by applying the Trade
  Recorder, with the duplicate check on, to each record in input order, each on the
  state left by the one before; the tickets of the three lists of the response are the
  tickets of the records whose outcome was success, skip and failure, in input order;
  and the three counts are the lengths of the three lists and add up to the number of
  records received.
\<close>

lemma registrar_trades_batch_partition:
  assumes dec: "decodable e"
  shows
  "\<exists>r. registrar_trades_batch e cfg trades s =
          (Inr r, foldl (\<lambda>st t. snd (enviar_a_notion e cfg t True st)) s trades) \<and>
        total_recibidos r = length trades \<and>
        exitosos r + omitidos r + fallidos r = length trades \<and>
        exitosos r = length (resultados r) \<and>
        omitidos r = length (omitidos_detalle r) \<and>
        fallidos r = length (errores r) \<and>
        length (outcomes e cfg trades s) = length trades \<and>
        map (json_field ''ticket'') (resultados r) =
          bucket Succeeded trades (outcomes e cfg trades s) \<and>
        map (json_field ''ticket'') (omitidos_detalle r) =
          bucket Skipped trades (outcomes e cfg trades s) \<and>
        map (json_field ''ticket'') (errores r) =
          bucket Failed trades (outcomes e cfg trades s)"
proof -
  obtain x s' where run: "batch_loop e cfg trades ([], [], []) s = (x, s')"
    by (cases "batch_loop e cfg trades ([], [], []) s")
  from batch_loop_run[OF dec, where cfg = cfg and trades = trades and res = "[]"
         and errs = "[]" and omit = "[]" and s = s] run
  obtain res errs omit where x: "x = Inr (res, errs, omit)"
    and st: "s' = foldl (\<lambda>st t. snd (enviar_a_notion e cfg t True st)) s trades"
    and b1: "map (json_field ''ticket'') res = bucket Succeeded trades (outcomes e cfg trades s)"
    and b2: "map (json_field ''ticket'') omit = bucket Skipped trades (outcomes e cfg trades s)"
    and b3: "map (json_field ''ticket'') errs = bucket Failed trades (outcomes e cfg trades s)"
    by (auto split: sum.splits prod.splits)
  have l1: "length res = length (bucket Succeeded trades (outcomes e cfg trades s))"
    using b1 by (metis length_map)
  have l2: "length omit = length (bucket Skipped trades (outcomes e cfg trades s))"
    using b2 by (metis length_map)
  have l3: "length errs = length (bucket Failed trades (outcomes e cfg trades s))"
    using b3 by (metis length_map)
  have total: "length res + length omit + length errs = length trades"
    using buckets_partition[of trades "outcomes e cfg trades s"] l1 l2 l3
    by (simp add: length_outcomes)
  show ?thesis
    using run x st b1 b2 b3 total
    by (simp add: registrar_trades_batch_def length_outcomes)
qed

text \<open>
  An evaluation against such a store: of three trades the second is rejected with a
  JSON error body; the first and the third are recorded.
\<close>

lemma ex_env_reject_4th_decodable: "decodable ex_env_reject_4th"
  by (simp add: decodable_def ex_env_reject_4th_def)

lemmas batch_eval_defs =
  registrar_trades_batch_def enviar_a_notion_def crear_trade_def trade_payload_def
  verificar_ticket_existe_def buscar_o_crear_cuenta_def buscar_o_crear_estrategia_def
  post_def response_json_def ex_cierre_iso ex_cfg_trades_only_def ex_trades_def
  ex_trade_def ex_state_def empty_dict_def py_get_def Let_def

lemma ex_batch:
  "fst (registrar_trades_batch ex_env_reject_4th ex_cfg_trades_only ex_trades ex_state) =
     Inr \<lparr> total_recibidos = 3, exitosos = 2, omitidos = 0, fallidos = 1,
           resultados = [JObj [(''ticket'', JInt 10042), (''status'', JStr ''success''),
                               (''page_id'', JStr ''page-2'')],
                         JObj [(''ticket'', JInt 10044), (''status'', JStr ''success''),
                               (''page_id'', JStr ''page-2'')]],
           omitidos_detalle = [],
           errores = [JObj [(''ticket'', JInt 10043), (''status'', JStr ''error''),
                            (''detail'', JStr ''Error de Notion: body failed validation'')]] \<rparr>"
  by (simp add: batch_eval_defs ex_env_reject_4th_def)

text \<open>
  C8. The claim is that the Batch Orchestrator processes the records in input order,
  that no record's failure ends the processing of the records after it, and that every
  record lands in one of the three buckets, whose counts add up to the number of
  records received. The lemma \<open>registrar_trades_batch_partition\<close> is this behaviour
  against a store whose bodies are all JSON. It fails when a reply cannot be decoded:
  of three trades the create request of the second is answered 502 with a gateway's
  HTML page; \<^verbatim>\<open>response.json()\<close> raises a ValueError that
  \<^verbatim>\<open>except HTTPException\<close> does not catch; the batch ends with that error after
  four requests, the third trade is never processed and no response with buckets is
  returned.
\<close>

theorem registrar_trades_batch_gateway:
  "fst (registrar_trades_batch ex_env_gateway_4th ex_cfg_trades_only ex_trades ex_state) =
     Inl (ValueError ''JSONDecodeError'') \<and>
   length (sent (snd (registrar_trades_batch ex_env_gateway_4th ex_cfg_trades_only ex_trades
                        ex_state))) = 4 \<and>
   length ex_trades = 3"
  by (simp add: batch_eval_defs ex_env_gateway_4th_def)

subsection \<open>The endpoint /sync\<close>

text \<open>
  C10. The endpoint /sync gives the list it receives to the function behind
  /trade/batch: for the same trades, store, clock and state the two return the same
  response and leave the same state, hence the same sequence of requests sent.
\<close>

theorem sync_is_batch:
  "sincronizar_historial e cfg trades s = registrar_trades_batch e cfg trades s"
  by (simp add: sincronizar_historial_def)

subsection \<open>The ticket enumerator\<close>

text \<open>
  The enumerator on its intended inputs: on pages whose ticket titles have no
  superscript digit the page loop returns the decimal titles as integers and skips the
  others; a page fetch that fails ends the pagination with the tickets accumulated so
  far; and a page that is fetched and decodes adds its tickets and either ends the
  pagination or continues from the cursor it gives.
\<close>

lemma extraer_tickets_decimal:
  "superscript_free pgs \<Longrightarrow> extraer_tickets pgs tickets = Inr (tickets @ decimal_tickets pgs)"
proof (induction pgs arbitrary: tickets)
  case Nil
  show ?case by (simp add: decimal_tickets_def map_filter_simps)
next
  case (Cons pg pgs)
  from Cons.prems have rest: "superscript_free pgs"
    by (simp add: superscript_free_def map_filter_simps split: option.splits)
  show ?case
  proof (cases "ticket_str_of pg")
    case None
    then show ?thesis
      using Cons.IH[OF rest]
      by (simp add: ticket_str_of_def decimal_tickets_def map_filter_simps Let_def split: list.splits)
  next
    case (Some str)
    with Cons.prems have iff: "isdigit str = (str \<noteq> [] \<and> list_all is_ascii_digit str)"
      by (simp add: superscript_free_def map_filter_simps)
    from Some show ?thesis
      using Cons.IH[OF rest] iff
      by (auto simp: ticket_str_of_def decimal_tickets_def map_filter_simps Let_def py_int_def
            split: list.splits)
  qed
qed

lemma paginar_stops_on_failure:
  assumes "(\<forall>d. net e (sent s @ [rq]) \<noteq> Response 200 d)"
    and "rq = \<lparr> url = NOTION_QUERY_URL @ ''/'' @ NOTION_DATABASE_ID cfg @ ''/query'',
                 headers = get_notion_headers cfg,
                 payload = JObj ([(''filter'', JObj [(''property'', JStr ''Cuenta''),
                                                     (''select'', JObj [(''equals'', JStr cuenta)])]),
                                   (''page_size'', JInt 100)] @
                                  (case start_cursor of
                                     None \<Rightarrow> []
                                   | Some c \<Rightarrow> if c \<noteq> [] then [(''start_cursor'', JStr c)] else [])),
                 timeout = 60 \<rparr>"
  shows "paginar e cfg cuenta tickets start_cursor s = Some (Inr tickets, s\<lparr>sent := sent s @ [rq]\<rparr>)"
  using assms
  by (subst paginar.simps) (auto simp: post_def Let_def split: reply.splits)

lemma paginar_page:
  assumes "net e (sent s @ [rq]) = Response 200 (Some d)"
    and "superscript_free (py_get (d_results d) [])"
    and "rq = \<lparr> url = NOTION_QUERY_URL @ ''/'' @ NOTION_DATABASE_ID cfg @ ''/query'',
                 headers = get_notion_headers cfg,
                 payload = JObj ([(''filter'', JObj [(''property'', JStr ''Cuenta''),
                                                     (''select'', JObj [(''equals'', JStr cuenta)])]),
                                   (''page_size'', JInt 100)] @
                                  (case start_cursor of
                                     None \<Rightarrow> []
                                   | Some c \<Rightarrow> if c \<noteq> [] then [(''start_cursor'', JStr c)] else [])),
                 timeout = 60 \<rparr>"
  shows "paginar e cfg cuenta tickets start_cursor s =
           (if py_get (d_has_more d) False
            then paginar e cfg cuenta (tickets @ decimal_tickets (py_get (d_results d) []))
                   (d_next_cursor d) (s\<lparr>sent := sent s @ [rq]\<rparr>)
            else Some (Inr (tickets @ decimal_tickets (py_get (d_results d) [])),
                       s\<lparr>sent := sent s @ [rq]\<rparr>))"
  using assms
  by (subst paginar.simps) (simp add: post_def Let_def response_json_def extraer_tickets_decimal)

text \<open>
  C9. The claim is that the Ticket Enumerator never surfaces an error: ticket fields
  that are not numeric are skipped, and a failed page fetch ends the pagination with the
  tickets accumulated so far. The three lemmas above are this behaviour on ticket
  titles without superscript digits. It fails on a ticket title for which
  \<^verbatim>\<open>isdigit()\<close> holds and \<^verbatim>\<open>int()\<close> raises: the store answers the first
  query with one page whose ticket title is the superscript two, and the enumerator
  raises ValueError out of the page loop instead of skipping the title.
\<close>

theorem obtener_tickets_cuenta_superscript:
  "map_option fst (obtener_tickets_cuenta ex_env_superscript ex_cfg ''FTMO_01'' ex_state) =
     Some (Inl (ValueError (''invalid literal for int() with base 10: '' @ [CHR 0xB2])))"
  by (simp add: obtener_tickets_cuenta_def paginar.simps post_def ex_env_superscript_def ex_cfg_def
        ex_state_def empty_dict_def py_get_def response_json_def isdigit_def is_unicode_digit_def
        is_ascii_digit_def
        digit_chars_def py_int_def Let_def)

end
